theory Spec2Isabelle
  imports Complex_Main
begin

section \<open>The survey inputs\<close>

text \<open>
  \<^verbatim>\<open>app.py\<close> reads eleven module-level values from its widgets: five
  \<^verbatim>\<open>st.selectbox\<close> answers (strings) and six \<^verbatim>\<open>st.slider\<close> answers
  (Python integers, since every slider is given integer bounds). The functions of the
  module read these globals; the model passes them as one record.
\<close>

record survey =
  work_interfere :: string
  mental_consequence :: string
  treatment :: string
  benefits :: string
  care_options :: string
  daily_screen_time :: int
  sleep_hours :: int
  focus_score :: int
  mood_score :: int
  anxiety_level :: int
  digital_wellbeing :: int

text \<open>The option lists of the select boxes (lines 74-97 of the source).\<close>

definition work_interfere_options :: "string list" where
  "work_interfere_options = [''Never'', ''Rarely'', ''Sometimes'', ''Often'']"

definition no_yes_options :: "string list" where
  "no_yes_options = [''No'', ''Yes'']"

text \<open>The slider ranges (lines 101-106): \<^verbatim>\<open>st.slider(label, lo, hi, default)\<close>.\<close>

definition in_bounds :: "survey \<Rightarrow> bool" where
  "in_bounds inp \<longleftrightarrow>
     30 \<le> daily_screen_time inp \<and> daily_screen_time inp \<le> 900 \<and>
     3 \<le> sleep_hours inp \<and> sleep_hours inp \<le> 10 \<and>
     1 \<le> focus_score inp \<and> focus_score inp \<le> 10 \<and>
     1 \<le> mood_score inp \<and> mood_score inp \<le> 10 \<and>
     1 \<le> anxiety_level inp \<and> anxiety_level inp \<le> 10 \<and>
     1 \<le> digital_wellbeing inp \<and> digital_wellbeing inp \<le> 10"

definition valid_categories :: "survey \<Rightarrow> bool" where
  "valid_categories inp \<longleftrightarrow>
     work_interfere inp \<in> set work_interfere_options \<and>
     mental_consequence inp \<in> set no_yes_options \<and>
     treatment inp \<in> set no_yes_options \<and>
     benefits inp \<in> set no_yes_options \<and>
     care_options inp \<in> set no_yes_options"

definition valid_input :: "survey \<Rightarrow> bool" where
  "valid_input inp \<longleftrightarrow> valid_categories inp \<and> in_bounds inp"

section \<open>The cognitive score\<close>

text \<open>
  \<^verbatim>\<open>compute_cognitive_score\<close> (lines 111-118) accumulates five terms in the local
  variable \<^verbatim>\<open>score\<close> and returns \<^verbatim>\<open>min(int(score), 100)\<close>. On a Python integer
  \<^verbatim>\<open>int\<close> is the identity. \<open>accumulated_score\<close> is the value of the local variable
  just before the \<^verbatim>\<open>return\<close>.
\<close>

definition accumulated_score :: "survey \<Rightarrow> int" where
  "accumulated_score inp =
     (let score = 0;
          score = score + (10 - anxiety_level inp) * 5;
          score = score + focus_score inp * 5;
          score = score + mood_score inp * 3;
          score = score + sleep_hours inp * 4;
          score = score + digital_wellbeing inp * 3
      in score)"

definition compute_cognitive_score :: "survey \<Rightarrow> int" where
  "compute_cognitive_score inp = min (accumulated_score inp) 100"

text \<open>The slider defaults (300, 7, 6, 6, 4, 6) with the first option of every select box.\<close>

definition default_survey :: survey where
  "default_survey =
     \<lparr>work_interfere = ''Never'', mental_consequence = ''No'', treatment = ''No'',
      benefits = ''No'', care_options = ''No'', daily_screen_time = 300, sleep_hours = 7,
      focus_score = 6, mood_score = 6, anxiety_level = 4, digital_wellbeing = 6\<rparr>"

text \<open>Every slider at its lower end, except anxiety at its upper end.\<close>

definition minimum_survey :: survey where
  "minimum_survey =
     \<lparr>work_interfere = ''Never'', mental_consequence = ''No'', treatment = ''No'',
      benefits = ''No'', care_options = ''No'', daily_screen_time = 30, sleep_hours = 3,
      focus_score = 1, mood_score = 1, anxiety_level = 10, digital_wellbeing = 1\<rparr>"

text \<open>A survey whose answers and slider values all differ from the first option and the defaults.\<close>

definition sample_survey :: survey where
  "sample_survey =
     \<lparr>work_interfere = ''Often'', mental_consequence = ''Yes'', treatment = ''No'',
      benefits = ''Yes'', care_options = ''Yes'', daily_screen_time = 480, sleep_hours = 5,
      focus_score = 3, mood_score = 8, anxiety_level = 7, digital_wellbeing = 2\<rparr>"

section \<open>Encoding the answers for the clustering model\<close>

text \<open>
  A function that can raise returns a sum, with the exception on the left. An exception
  is identified by the name of its class. The only one the modelled functions raise is
  Python's built-in \<^verbatim>\<open>ValueError\<close>: \<^verbatim>\<open>list.index\<close> raises it for a value that is not in
  the list, and \<^verbatim>\<open>numpy.pad\<close> raises it for a negative pad width. The module defines no
  exception class of its own.
\<close>

datatype error = Raised string

abbreviation ValueError :: error where
  "ValueError \<equiv> Raised ''ValueError''"

text \<open>
  \<^verbatim>\<open>xs.index(x)\<close>: the position of the first element equal to \<^verbatim>\<open>x\<close>, counted from 0;
  \<^verbatim>\<open>ValueError\<close> when there is none.
\<close>

fun list_index :: "'a list \<Rightarrow> 'a \<Rightarrow> error + int" where
  "list_index [] x = Inl ValueError"
| "list_index (y # ys) x =
     (if y = x then Inr 0
      else case list_index ys x of Inl e \<Rightarrow> Inl e | Inr i \<Rightarrow> Inr (i + 1))"

text \<open>
  \<^verbatim>\<open>pd.DataFrame([d])\<close> for one dictionary \<^verbatim>\<open>d\<close>: a table of one row whose columns are
  the keys of \<^verbatim>\<open>d\<close> in insertion order. The dictionary literal of the source has eleven
  distinct keys, so it is written as an association list in the order of the literal.
\<close>

record dataframe =
  columns :: "string list"
  rows :: "int list list"

definition DataFrame :: "(string \<times> int) list \<Rightarrow> dataframe" where
  "DataFrame d = \<lparr>columns = map fst d, rows = [map snd d]\<rparr>"

text \<open>
  \<^verbatim>\<open>encode_cognitive_input\<close> (lines 123-136). The values of the dictionary literal are
  evaluated in the order written, so the first \<^verbatim>\<open>index\<close> call that raises ends the
  function.
\<close>

definition encode_cognitive_input :: "survey \<Rightarrow> error + dataframe" where
  "encode_cognitive_input inp =
     (case list_index [''Never'', ''Rarely'', ''Sometimes'', ''Often''] (work_interfere inp) of
        Inl e \<Rightarrow> Inl e
      | Inr wi \<Rightarrow>
     (case list_index [''No'', ''Yes''] (mental_consequence inp) of
        Inl e \<Rightarrow> Inl e
      | Inr mc \<Rightarrow>
     (case list_index [''No'', ''Yes''] (treatment inp) of
        Inl e \<Rightarrow> Inl e
      | Inr tr \<Rightarrow>
     (case list_index [''No'', ''Yes''] (benefits inp) of
        Inl e \<Rightarrow> Inl e
      | Inr be \<Rightarrow>
     (case list_index [''No'', ''Yes''] (care_options inp) of
        Inl e \<Rightarrow> Inl e
      | Inr co \<Rightarrow>
        Inr (DataFrame
          [(''work_interfere'', wi),
           (''mental_health_consequence'', mc),
           (''treatment'', tr),
           (''benefits'', be),
           (''care_options'', co),
           (''daily_screen_time_min'', daily_screen_time inp),
           (''sleep_hours'', sleep_hours inp),
           (''focus_score'', focus_score inp),
           (''mood_score'', mood_score inp),
           (''anxiety_level'', anxiety_level inp),
           (''digital_wellbeing_score'', digital_wellbeing inp)]))))))"

section \<open>The decision vector\<close>

text \<open>
  \<^verbatim>\<open>np.array([...], dtype=float)\<close> turns the six integers into floating-point numbers.
  Every integer of magnitude below \<open>2 ^ 53\<close>, so every slider value, is represented
  exactly; the model takes the elements as reals.

  \<^verbatim>\<open>np.pad(a, (pad_before, pad_after))\<close> in its default mode puts \<^verbatim>\<open>pad_before\<close>
  zeros in front of a one-dimensional array and \<^verbatim>\<open>pad_after\<close> zeros behind it, and raises \<^verbatim>\<open>ValueError\<close>
  for a negative width.
\<close>

definition np_pad :: "real list \<Rightarrow> int \<times> int \<Rightarrow> error + real list" where
  "np_pad a w =
     (case w of (pad_before, pad_after) \<Rightarrow>
        if pad_before < 0 \<or> pad_after < 0 then Inl ValueError
        else Inr (replicate (nat pad_before) 0 @ a @ replicate (nat pad_after) 0))"

text \<open>
  The slice \<^verbatim>\<open>a[:n]\<close>: a negative \<^verbatim>\<open>n\<close> counts from the end, and the bound is clipped
  to the array.
\<close>

definition slice_upto :: "'a list \<Rightarrow> int \<Rightarrow> 'a list" where
  "slice_upto a n = (if n < 0 then take (nat (int (length a) + n)) a else take (nat n) a)"

text \<open>
  \<^verbatim>\<open>a.reshape(1, -1)\<close> on a one-dimensional array: one row holding all its elements (for
  an empty array, one row of width 0).
\<close>

definition reshape_1_row :: "real list \<Rightarrow> real list list" where
  "reshape_1_row a = [a]"

text \<open>
  \<^verbatim>\<open>build_decision_vector\<close> (lines 141-156). \<^verbatim>\<open>decision_feature_count\<close> is a global
  loaded from a model artifact; it is a parameter here.
\<close>

definition decision_base :: "survey \<Rightarrow> real list" where
  "decision_base inp =
     map real_of_int
       [daily_screen_time inp, sleep_hours inp, focus_score inp, mood_score inp,
        anxiety_level inp, digital_wellbeing inp]"

definition build_decision_vector :: "survey \<Rightarrow> int \<Rightarrow> error + real list list" where
  "build_decision_vector inp decision_feature_count =
     (let base = decision_base inp in
      case (if int (length base) < decision_feature_count
            then np_pad base (0, decision_feature_count - int (length base))
            else Inr (slice_upto base decision_feature_count)) of
        Inl e \<Rightarrow> Inl e
      | Inr base \<Rightarrow> Inr (reshape_1_row base))"

section \<open>The cluster label\<close>

text \<open>The dictionary \<^verbatim>\<open>cluster_map\<close> (lines 177-181).\<close>

definition cluster_map :: "int \<rightharpoonup> string" where
  "cluster_map =
     [0 \<mapsto> ''Balanced Cognitive State'',
      1 \<mapsto> ''High Cognitive Load & Anxiety'',
      2 \<mapsto> ''Low Focus & Digital Fatigue'']"

text \<open>
  \<^verbatim>\<open>d.get(k)\<close> with no default: the value stored under \<^verbatim>\<open>k\<close>, or \<^verbatim>\<open>None\<close> when
  \<^verbatim>\<open>k\<close> is not a key. Unlike \<^verbatim>\<open>d[k]\<close> it has no raising branch.
\<close>

definition dict_get :: "('k \<rightharpoonup> 'v) \<Rightarrow> 'k \<Rightarrow> error + 'v option" where
  "dict_get d k = Inr (d k)"

text \<open>
  Line 184, \<^verbatim>\<open>st.success(cluster_map.get(cognitive_cluster))\<close>: the call made to the
  result display, with the argument it receives.
\<close>

datatype display_call = Success "string option"

definition show_cluster_profile :: "int \<Rightarrow> error + display_call" where
  "show_cluster_profile cognitive_cluster =
     (case dict_get cluster_map cognitive_cluster of
        Inl e \<Rightarrow> Inl e
      | Inr label \<Rightarrow> Inr (Success label))"

text \<open>
  Line 212 puts the same lookup into an f-string, where an object is formatted by
  \<^verbatim>\<open>str\<close>: a string as itself, \<^verbatim>\<open>None\<close> as the text \<^verbatim>\<open>None\<close>.
\<close>

definition format_label :: "string option \<Rightarrow> string" where
  "format_label v = (case v of None \<Rightarrow> ''None'' | Some s \<Rightarrow> s)"

definition explained_cluster_label :: "int \<Rightarrow> error + string" where
  "explained_cluster_label cognitive_cluster =
     (case dict_get cluster_map cognitive_cluster of
        Inl e \<Rightarrow> Inl e
      | Inr label \<Rightarrow> Inr (format_label label))"

section \<open>Properties of the score\<close>

lemma accumulated_score_eq:
  "accumulated_score inp =
     (10 - anxiety_level inp) * 5 + focus_score inp * 5 + mood_score inp * 3
       + sleep_hours inp * 4 + digital_wellbeing inp * 3"
  by (simp add: accumulated_score_def Let_def)

text \<open>
  Claim C1. The score is the five-term weighted sum
  \<open>(10 - anxiety_level)*5 + focus_score*5 + mood_score*3 + sleep_hours*4 + digital_wellbeing*3\<close>
  capped at 100. For anxiety 4, focus 6, mood 6, sleep 7, wellbeing 6 the sum is 124 and the
  returned score is 100; for anxiety 10, focus 1, mood 1, sleep 3, wellbeing 1 the returned
  score is 23.
\<close>

theorem compute_cognitive_score_formula:
  "compute_cognitive_score inp =
     min ((10 - anxiety_level inp) * 5 + focus_score inp * 5 + mood_score inp * 3
            + sleep_hours inp * 4 + digital_wellbeing inp * 3) 100
   \<and> compute_cognitive_score inp \<le> 100
   \<and> accumulated_score default_survey = 124
   \<and> compute_cognitive_score default_survey = 100
   \<and> compute_cognitive_score minimum_survey = 23"
  by (simp add: compute_cognitive_score_def accumulated_score_eq default_survey_def
      minimum_survey_def)

text \<open>
  Claim C3. Whenever the six slider values lie in their ranges (the select-box answers play
  no part in the score), the returned score lies between 0 and 100.
\<close>

theorem compute_cognitive_score_range:
  assumes "in_bounds inp"
  shows "0 \<le> compute_cognitive_score inp \<and> compute_cognitive_score inp \<le> 100"
proof -
  from assms have "0 \<le> accumulated_score inp"
    by (simp add: in_bounds_def accumulated_score_eq)
  then show ?thesis
    by (simp add: compute_cognitive_score_def)
qed

theorem compute_cognitive_score_range_witness:
  "in_bounds default_survey
   \<and> 0 \<le> compute_cognitive_score default_survey
   \<and> compute_cognitive_score default_survey \<le> 100"
proof -
  have b: "in_bounds default_survey"
    by (simp add: in_bounds_def default_survey_def)
  show ?thesis
    using b compute_cognitive_score_range [OF b] by simp
qed

lemma compute_cognitive_score_mono:
  assumes "anxiety_level y \<le> anxiety_level x"
    and "focus_score x \<le> focus_score y"
    and "mood_score x \<le> mood_score y"
    and "sleep_hours x \<le> sleep_hours y"
    and "digital_wellbeing x \<le> digital_wellbeing y"
  shows "compute_cognitive_score x \<le> compute_cognitive_score y"
proof -
  from assms have "accumulated_score x \<le> accumulated_score y"
    by (simp add: accumulated_score_eq)
  then show ?thesis
    unfolding compute_cognitive_score_def by (rule min.mono) simp
qed

text \<open>
  Claim C4. With the other inputs held fixed, raising the focus score, the mood score, the
  sleep hours or the digital wellbeing score never lowers the cognitive score, and raising
  the anxiety level never raises it. This holds for all integer inputs, so in particular
  for those within the slider ranges.
\<close>

theorem compute_cognitive_score_monotone:
  "(f \<le> f' \<longrightarrow>
      compute_cognitive_score (inp\<lparr>focus_score := f\<rparr>)
        \<le> compute_cognitive_score (inp\<lparr>focus_score := f'\<rparr>))
   \<and> (m \<le> m' \<longrightarrow>
      compute_cognitive_score (inp\<lparr>mood_score := m\<rparr>)
        \<le> compute_cognitive_score (inp\<lparr>mood_score := m'\<rparr>))
   \<and> (s \<le> s' \<longrightarrow>
      compute_cognitive_score (inp\<lparr>sleep_hours := s\<rparr>)
        \<le> compute_cognitive_score (inp\<lparr>sleep_hours := s'\<rparr>))
   \<and> (d \<le> d' \<longrightarrow>
      compute_cognitive_score (inp\<lparr>digital_wellbeing := d\<rparr>)
        \<le> compute_cognitive_score (inp\<lparr>digital_wellbeing := d'\<rparr>))
   \<and> (a \<le> a' \<longrightarrow>
      compute_cognitive_score (inp\<lparr>anxiety_level := a'\<rparr>)
        \<le> compute_cognitive_score (inp\<lparr>anxiety_level := a\<rparr>))"
  by (intro conjI impI compute_cognitive_score_mono) simp_all

theorem compute_cognitive_score_monotone_witness:
  "(1::int) \<le> 2 \<and> (3::int) \<le> 4 \<and> (10::int) \<le> 10
   \<and> compute_cognitive_score (minimum_survey\<lparr>focus_score := 1\<rparr>)
        \<le> compute_cognitive_score (minimum_survey\<lparr>focus_score := 2\<rparr>)
   \<and> compute_cognitive_score (minimum_survey\<lparr>mood_score := 1\<rparr>)
        \<le> compute_cognitive_score (minimum_survey\<lparr>mood_score := 2\<rparr>)
   \<and> compute_cognitive_score (minimum_survey\<lparr>sleep_hours := 3\<rparr>)
        \<le> compute_cognitive_score (minimum_survey\<lparr>sleep_hours := 4\<rparr>)
   \<and> compute_cognitive_score (minimum_survey\<lparr>digital_wellbeing := 1\<rparr>)
        \<le> compute_cognitive_score (minimum_survey\<lparr>digital_wellbeing := 2\<rparr>)
   \<and> compute_cognitive_score (minimum_survey\<lparr>anxiety_level := 10\<rparr>)
        \<le> compute_cognitive_score (minimum_survey\<lparr>anxiety_level := 10\<rparr>)
   \<and> compute_cognitive_score (minimum_survey\<lparr>anxiety_level := 2\<rparr>)
        \<le> compute_cognitive_score (minimum_survey\<lparr>anxiety_level := 1\<rparr>)"
  using compute_cognitive_score_monotone
    [of 1 2 minimum_survey 1 2 3 4 1 2 10 10]
    compute_cognitive_score_monotone
    [of 1 2 minimum_survey 1 2 3 4 1 2 1 2]
  by simp

text \<open>
  Claim C10. Whenever the six slider values lie in their ranges, the accumulated sum is at
  least 23, so the returned score lies between 23 and 100 and taking its maximum with 0
  would change nothing.
\<close>

theorem compute_cognitive_score_at_least_23:
  assumes "in_bounds inp"
  shows "23 \<le> accumulated_score inp
     \<and> 23 \<le> compute_cognitive_score inp
     \<and> compute_cognitive_score inp \<le> 100
     \<and> max 0 (compute_cognitive_score inp) = compute_cognitive_score inp"
proof -
  from assms have "23 \<le> accumulated_score inp"
    by (simp add: in_bounds_def accumulated_score_eq)
  then show ?thesis
    by (simp add: compute_cognitive_score_def)
qed

theorem compute_cognitive_score_at_least_23_witness:
  "in_bounds minimum_survey
   \<and> accumulated_score minimum_survey = 23
   \<and> 23 \<le> compute_cognitive_score minimum_survey
   \<and> compute_cognitive_score minimum_survey \<le> 100"
proof -
  have b: "in_bounds minimum_survey"
    by (simp add: in_bounds_def minimum_survey_def)
  have "accumulated_score minimum_survey = 23"
    by (simp add: accumulated_score_eq minimum_survey_def)
  then show ?thesis
    using b compute_cognitive_score_at_least_23 [OF b] by simp
qed

section \<open>Properties of the encoder\<close>

lemma list_index_member:
  "x \<in> set xs \<Longrightarrow>
     \<exists>i < length xs. list_index xs x = Inr (int i) \<and> xs ! i = x \<and> (\<forall>j < i. xs ! j \<noteq> x)"
proof (induction xs)
  case Nil
  then show ?case by simp
next
  case (Cons y ys)
  show ?case
  proof (cases "y = x")
    case True
    then show ?thesis by simp
  next
    case False
    with Cons.prems have "x \<in> set ys" by simp
    from Cons.IH [OF this] obtain i where i: "i < length ys" "list_index ys x = Inr (int i)"
      "ys ! i = x" "\<forall>j < i. ys ! j \<noteq> x" by blast
    have "\<forall>j < Suc i. (y # ys) ! j \<noteq> x"
      using False i(4) by (auto simp: nth_Cons split: nat.splits)
    with False i(1-3) show ?thesis
      by (intro exI [of _ "Suc i"]) (simp add: add.commute)
  qed
qed

lemma list_index_not_member: "x \<notin> set xs \<Longrightarrow> list_index xs x = Inl ValueError"
  by (induction xs) auto

lemma list_index_Inl: "list_index xs x = Inl e \<Longrightarrow> e = ValueError"
  by (induction xs arbitrary: e) (auto split: if_splits sum.splits)

lemma encode_cognitive_input_codes:
  assumes "list_index work_interfere_options (work_interfere inp) = Inr wi"
    and "list_index no_yes_options (mental_consequence inp) = Inr mc"
    and "list_index no_yes_options (treatment inp) = Inr tr"
    and "list_index no_yes_options (benefits inp) = Inr be"
    and "list_index no_yes_options (care_options inp) = Inr co"
  shows "encode_cognitive_input inp =
     Inr \<lparr>columns =
            [''work_interfere'', ''mental_health_consequence'', ''treatment'', ''benefits'',
             ''care_options'', ''daily_screen_time_min'', ''sleep_hours'', ''focus_score'',
             ''mood_score'', ''anxiety_level'', ''digital_wellbeing_score''],
          rows =
            [[wi, mc, tr, be, co, daily_screen_time inp, sleep_hours inp, focus_score inp,
              mood_score inp, anxiety_level inp, digital_wellbeing inp]]\<rparr>"
  using assms
  unfolding encode_cognitive_input_def work_interfere_options_def no_yes_options_def
    DataFrame_def
  by simp

lemma encode_cognitive_input_raises:
  assumes "\<not> valid_categories inp"
  shows "encode_cognitive_input inp = Inl ValueError"
proof -
  note e = list_index_Inl
  from assms consider
      "work_interfere inp \<notin> set [''Never'', ''Rarely'', ''Sometimes'', ''Often'']"
    | "mental_consequence inp \<notin> set [''No'', ''Yes'']"
    | "treatment inp \<notin> set [''No'', ''Yes'']"
    | "benefits inp \<notin> set [''No'', ''Yes'']"
    | "care_options inp \<notin> set [''No'', ''Yes'']"
    unfolding valid_categories_def work_interfere_options_def no_yes_options_def by blast
  then show ?thesis
  proof cases
    case 1
    from list_index_not_member [OF this] show ?thesis
      unfolding encode_cognitive_input_def by (simp del: list_index.simps)
  next
    case 2
    from list_index_not_member [OF this] show ?thesis
      unfolding encode_cognitive_input_def by (auto split: sum.splits dest: e simp del: list_index.simps)
  next
    case 3
    from list_index_not_member [OF this] show ?thesis
      unfolding encode_cognitive_input_def by (auto split: sum.splits dest: e simp del: list_index.simps)
  next
    case 4
    from list_index_not_member [OF this] show ?thesis
      unfolding encode_cognitive_input_def by (auto split: sum.splits dest: e simp del: list_index.simps)
  next
    case 5
    from list_index_not_member [OF this] show ?thesis
      unfolding encode_cognitive_input_def by (auto split: sum.splits dest: e simp del: list_index.simps)
  qed
qed


text \<open>
  Claim C6. The ordinal code of a label is its position in the field's option list, and
  reading the list at that position gives the label back: for both option lists of the
  source, every label of the list is encoded by \<^verbatim>\<open>index\<close> as the first (and only)
  position holding it; for every input whose five answers are among the options, the first
  five entries of the encoded row are such positions; and Never, Rarely, Sometimes, Often
  encode to 0, 1, 2, 3 and No, Yes to 0, 1.
\<close>

theorem categorical_encoding_roundtrip:
  "(\<forall>cats \<in> {work_interfere_options, no_yes_options}. \<forall>label \<in> set cats.
      \<exists>i < length cats.
        list_index cats label = Inr (int i) \<and> cats ! i = label
        \<and> (\<forall>j < i. cats ! j \<noteq> label))
   \<and> (valid_categories inp \<longrightarrow>
        (\<exists>df wi mc tr be co.
           encode_cognitive_input inp = Inr df
           \<and> take 5 (hd (rows df)) = [wi, mc, tr, be, co]
           \<and> 0 \<le> wi \<and> wi < 4 \<and> work_interfere_options ! nat wi = work_interfere inp
           \<and> 0 \<le> mc \<and> mc < 2 \<and> no_yes_options ! nat mc = mental_consequence inp
           \<and> 0 \<le> tr \<and> tr < 2 \<and> no_yes_options ! nat tr = treatment inp
           \<and> 0 \<le> be \<and> be < 2 \<and> no_yes_options ! nat be = benefits inp
           \<and> 0 \<le> co \<and> co < 2 \<and> no_yes_options ! nat co = care_options inp))
   \<and> list_index work_interfere_options ''Never'' = Inr 0
   \<and> list_index work_interfere_options ''Rarely'' = Inr 1
   \<and> list_index work_interfere_options ''Sometimes'' = Inr 2
   \<and> list_index work_interfere_options ''Often'' = Inr 3
   \<and> list_index no_yes_options ''No'' = Inr 0
   \<and> list_index no_yes_options ''Yes'' = Inr 1"
proof -
  have lists: "\<forall>cats \<in> {work_interfere_options, no_yes_options}. \<forall>label \<in> set cats.
      \<exists>i < length cats.
        list_index cats label = Inr (int i) \<and> cats ! i = label
        \<and> (\<forall>j < i. cats ! j \<noteq> label)"
    using list_index_member by fast
  have enc: "\<exists>df wi mc tr be co.
           encode_cognitive_input inp = Inr df
           \<and> take 5 (hd (rows df)) = [wi, mc, tr, be, co]
           \<and> 0 \<le> wi \<and> wi < 4 \<and> work_interfere_options ! nat wi = work_interfere inp
           \<and> 0 \<le> mc \<and> mc < 2 \<and> no_yes_options ! nat mc = mental_consequence inp
           \<and> 0 \<le> tr \<and> tr < 2 \<and> no_yes_options ! nat tr = treatment inp
           \<and> 0 \<le> be \<and> be < 2 \<and> no_yes_options ! nat be = benefits inp
           \<and> 0 \<le> co \<and> co < 2 \<and> no_yes_options ! nat co = care_options inp"
    if v: "valid_categories inp"
  proof -
    have four: "length work_interfere_options = 4" and two: "length no_yes_options = 2"
      by (simp_all add: work_interfere_options_def no_yes_options_def)
    from v list_index_member [of "work_interfere inp" work_interfere_options]
    obtain a where a: "a < 4"
      "list_index work_interfere_options (work_interfere inp) = Inr (int a)"
      "work_interfere_options ! a = work_interfere inp"
      unfolding valid_categories_def four by blast
    from v list_index_member [of "mental_consequence inp" no_yes_options]
    obtain b where b: "b < 2"
      "list_index no_yes_options (mental_consequence inp) = Inr (int b)"
      "no_yes_options ! b = mental_consequence inp"
      unfolding valid_categories_def two by blast
    from v list_index_member [of "treatment inp" no_yes_options]
    obtain c where c: "c < 2"
      "list_index no_yes_options (treatment inp) = Inr (int c)"
      "no_yes_options ! c = treatment inp"
      unfolding valid_categories_def two by blast
    from v list_index_member [of "benefits inp" no_yes_options]
    obtain d where d: "d < 2"
      "list_index no_yes_options (benefits inp) = Inr (int d)"
      "no_yes_options ! d = benefits inp"
      unfolding valid_categories_def two by blast
    from v list_index_member [of "care_options inp" no_yes_options]
    obtain e where e: "e < 2"
      "list_index no_yes_options (care_options inp) = Inr (int e)"
      "no_yes_options ! e = care_options inp"
      unfolding valid_categories_def two by blast
    note df = encode_cognitive_input_codes [OF a(2) b(2) c(2) d(2) e(2)]
    from a(1,3) b(1,3) c(1,3) d(1,3) e(1,3) show ?thesis
      by (simp add: df)
  qed
  have concrete: "list_index work_interfere_options ''Never'' = Inr 0"
    "list_index work_interfere_options ''Rarely'' = Inr 1"
    "list_index work_interfere_options ''Sometimes'' = Inr 2"
    "list_index work_interfere_options ''Often'' = Inr 3"
    "list_index no_yes_options ''No'' = Inr 0"
    "list_index no_yes_options ''Yes'' = Inr 1"
    by (simp_all add: work_interfere_options_def no_yes_options_def)
  from lists enc concrete show ?thesis by blast
qed

theorem categorical_encoding_roundtrip_witness:
  "''Often'' \<in> set work_interfere_options
   \<and> (\<exists>i < length work_interfere_options.
        list_index work_interfere_options ''Often'' = Inr (int i)
        \<and> work_interfere_options ! i = ''Often'')
   \<and> valid_categories (default_survey\<lparr>work_interfere := ''Often''\<rparr>)
   \<and> (\<exists>df wi tr.
        encode_cognitive_input (default_survey\<lparr>work_interfere := ''Often''\<rparr>) = Inr df
        \<and> work_interfere_options ! nat wi = ''Often''
        \<and> no_yes_options ! nat tr = ''No'')"
proof -
  have m: "''Often'' \<in> set work_interfere_options"
    by (simp add: work_interfere_options_def)
  have v: "valid_categories (default_survey\<lparr>work_interfere := ''Often''\<rparr>)"
    by (simp add: valid_categories_def default_survey_def work_interfere_options_def
        no_yes_options_def)
  have t: "treatment (default_survey\<lparr>work_interfere := ''Often''\<rparr>) = ''No''"
    and w: "work_interfere (default_survey\<lparr>work_interfere := ''Often''\<rparr>) = ''Often''"
    by (simp_all add: default_survey_def)
  note r = categorical_encoding_roundtrip [of "default_survey\<lparr>work_interfere := ''Often''\<rparr>"]
  from r m have "\<exists>i < length work_interfere_options.
        list_index work_interfere_options ''Often'' = Inr (int i)
        \<and> work_interfere_options ! i = ''Often''"
    by blast
  moreover from r v have "\<exists>df wi tr.
        encode_cognitive_input (default_survey\<lparr>work_interfere := ''Often''\<rparr>) = Inr df
        \<and> work_interfere_options ! nat wi = ''Often''
        \<and> no_yes_options ! nat tr = ''No''"
    unfolding t w by blast
  ultimately show ?thesis using m v by blast
qed

text \<open>
  Claim C7, as amended. An answer that is not among the options of its select box makes
  the encoder fail with Python's built-in \<^verbatim>\<open>ValueError\<close>, for each of the five
  categorical fields: \<^verbatim>\<open>index\<close> raises it instead of returning a code, and no table is
  produced.
\<close>

theorem encode_cognitive_input_invalid_category:
  "(label \<notin> set cats \<longrightarrow> list_index cats label = Inl ValueError)
   \<and> (work_interfere inp \<notin> set work_interfere_options \<longrightarrow>
        encode_cognitive_input inp = Inl ValueError)
   \<and> (mental_consequence inp \<notin> set no_yes_options \<longrightarrow>
        encode_cognitive_input inp = Inl ValueError)
   \<and> (treatment inp \<notin> set no_yes_options \<longrightarrow>
        encode_cognitive_input inp = Inl ValueError)
   \<and> (benefits inp \<notin> set no_yes_options \<longrightarrow>
        encode_cognitive_input inp = Inl ValueError)
   \<and> (care_options inp \<notin> set no_yes_options \<longrightarrow>
        encode_cognitive_input inp = Inl ValueError)
   \<and> (\<not> valid_categories inp \<longrightarrow> (\<forall>df. encode_cognitive_input inp \<noteq> Inr df))"
proof -
  have "encode_cognitive_input inp = Inl ValueError" if "\<not> valid_categories inp"
    using that by (rule encode_cognitive_input_raises)
  then show ?thesis
    unfolding valid_categories_def by (auto simp: list_index_not_member)
qed

theorem encode_cognitive_input_invalid_category_witness:
  "''Maybe'' \<notin> set no_yes_options
   \<and> list_index no_yes_options ''Maybe'' = Inl ValueError
   \<and> encode_cognitive_input (default_survey\<lparr>work_interfere := ''Always''\<rparr>) = Inl ValueError
   \<and> encode_cognitive_input (default_survey\<lparr>mental_consequence := ''Maybe''\<rparr>) = Inl ValueError
   \<and> encode_cognitive_input (default_survey\<lparr>treatment := ''Maybe''\<rparr>) = Inl ValueError
   \<and> encode_cognitive_input (default_survey\<lparr>benefits := ''Maybe''\<rparr>) = Inl ValueError
   \<and> encode_cognitive_input (default_survey\<lparr>care_options := ''Maybe''\<rparr>) = Inl ValueError"
proof -
  have m: "''Maybe'' \<notin> set no_yes_options" "''Always'' \<notin> set work_interfere_options"
    by (simp_all add: no_yes_options_def work_interfere_options_def)
  from m
    encode_cognitive_input_invalid_category
      [of "''Maybe''" no_yes_options "default_survey\<lparr>work_interfere := ''Always''\<rparr>"]
    encode_cognitive_input_invalid_category
      [of "''Maybe''" no_yes_options "default_survey\<lparr>mental_consequence := ''Maybe''\<rparr>"]
    encode_cognitive_input_invalid_category
      [of "''Maybe''" no_yes_options "default_survey\<lparr>treatment := ''Maybe''\<rparr>"]
    encode_cognitive_input_invalid_category
      [of "''Maybe''" no_yes_options "default_survey\<lparr>benefits := ''Maybe''\<rparr>"]
    encode_cognitive_input_invalid_category
      [of "''Maybe''" no_yes_options "default_survey\<lparr>care_options := ''Maybe''\<rparr>"]
  show ?thesis by simp
qed

text \<open>
  Claim C7, as stated, fails for the treatment answer Maybe: the exception that reaches
  the caller is a \<^verbatim>\<open>ValueError\<close>, not an InvalidCategoryError.
\<close>

theorem invalid_category_error_counterexample:
  "encode_cognitive_input (default_survey\<lparr>treatment := ''Maybe''\<rparr>)
     \<noteq> Inl (Raised ''InvalidCategoryError'')
   \<and> encode_cognitive_input (default_survey\<lparr>treatment := ''Maybe''\<rparr>)
     = Inl (Raised ''ValueError'')"
  by (simp add: encode_cognitive_input_def default_survey_def)

text \<open>
  Claim C8. For every valid input the encoder returns one table of one row with the eleven
  columns work_interfere, mental_health_consequence, treatment, benefits, care_options,
  daily_screen_time_min, sleep_hours, focus_score, mood_score, anxiety_level,
  digital_wellbeing_score, in this order; the first five entries of the row are the
  positions of the five answers in their option lists and the last six are the slider
  values as entered.
\<close>

theorem encode_cognitive_input_record:
  assumes "valid_input inp"
  shows "\<exists>wi mc tr be co.
     0 \<le> wi \<and> nat wi < length work_interfere_options
     \<and> work_interfere_options ! nat wi = work_interfere inp
     \<and> 0 \<le> mc \<and> nat mc < length no_yes_options
     \<and> no_yes_options ! nat mc = mental_consequence inp
     \<and> 0 \<le> tr \<and> nat tr < length no_yes_options
     \<and> no_yes_options ! nat tr = treatment inp
     \<and> 0 \<le> be \<and> nat be < length no_yes_options
     \<and> no_yes_options ! nat be = benefits inp
     \<and> 0 \<le> co \<and> nat co < length no_yes_options
     \<and> no_yes_options ! nat co = care_options inp
     \<and> list_index work_interfere_options (work_interfere inp) = Inr wi
     \<and> list_index no_yes_options (mental_consequence inp) = Inr mc
     \<and> list_index no_yes_options (treatment inp) = Inr tr
     \<and> list_index no_yes_options (benefits inp) = Inr be
     \<and> list_index no_yes_options (care_options inp) = Inr co
     \<and> encode_cognitive_input inp =
         Inr \<lparr>columns =
                [''work_interfere'', ''mental_health_consequence'', ''treatment'',
                 ''benefits'', ''care_options'', ''daily_screen_time_min'', ''sleep_hours'',
                 ''focus_score'', ''mood_score'', ''anxiety_level'',
                 ''digital_wellbeing_score''],
              rows =
                [[wi, mc, tr, be, co, daily_screen_time inp, sleep_hours inp,
                  focus_score inp, mood_score inp, anxiety_level inp,
                  digital_wellbeing inp]]\<rparr>"
proof -
  from assms have v: "valid_categories inp"
    by (simp add: valid_input_def)
  from v list_index_member [of "work_interfere inp" work_interfere_options]
  obtain a where a: "a < length work_interfere_options"
    "list_index work_interfere_options (work_interfere inp) = Inr (int a)"
    "work_interfere_options ! a = work_interfere inp"
    unfolding valid_categories_def by blast
  from v list_index_member [of "mental_consequence inp" no_yes_options]
  obtain b where b: "b < length no_yes_options"
    "list_index no_yes_options (mental_consequence inp) = Inr (int b)"
    "no_yes_options ! b = mental_consequence inp"
    unfolding valid_categories_def by blast
  from v list_index_member [of "treatment inp" no_yes_options]
  obtain c where c: "c < length no_yes_options"
    "list_index no_yes_options (treatment inp) = Inr (int c)"
    "no_yes_options ! c = treatment inp"
    unfolding valid_categories_def by blast
  from v list_index_member [of "benefits inp" no_yes_options]
  obtain d where d: "d < length no_yes_options"
    "list_index no_yes_options (benefits inp) = Inr (int d)"
    "no_yes_options ! d = benefits inp"
    unfolding valid_categories_def by blast
  from v list_index_member [of "care_options inp" no_yes_options]
  obtain e where e: "e < length no_yes_options"
    "list_index no_yes_options (care_options inp) = Inr (int e)"
    "no_yes_options ! e = care_options inp"
    unfolding valid_categories_def by blast
  note df = encode_cognitive_input_codes [OF a(2) b(2) c(2) d(2) e(2)]
  from a b c d e df show ?thesis
    by (intro exI [of _ "int a"] exI [of _ "int b"] exI [of _ "int c"] exI [of _ "int d"]
        exI [of _ "int e"]) simp
qed

theorem encode_cognitive_input_record_witness:
  "valid_input sample_survey
   \<and> encode_cognitive_input sample_survey =
       Inr \<lparr>columns =
              [''work_interfere'', ''mental_health_consequence'', ''treatment'',
               ''benefits'', ''care_options'', ''daily_screen_time_min'', ''sleep_hours'',
               ''focus_score'', ''mood_score'', ''anxiety_level'',
               ''digital_wellbeing_score''],
            rows = [[3, 1, 0, 1, 1, 480, 5, 3, 8, 7, 2]]\<rparr>"
proof -
  have v: "valid_input sample_survey"
    by (simp add: valid_input_def valid_categories_def in_bounds_def sample_survey_def
        work_interfere_options_def no_yes_options_def)
  have c: "list_index work_interfere_options (work_interfere sample_survey) = Inr 3"
    "list_index no_yes_options (mental_consequence sample_survey) = Inr 1"
    "list_index no_yes_options (treatment sample_survey) = Inr 0"
    "list_index no_yes_options (benefits sample_survey) = Inr 1"
    "list_index no_yes_options (care_options sample_survey) = Inr 1"
    by (simp_all add: sample_survey_def work_interfere_options_def no_yes_options_def)
  have n: "daily_screen_time sample_survey = 480" "sleep_hours sample_survey = 5"
    "focus_score sample_survey = 3" "mood_score sample_survey = 8"
    "anxiety_level sample_survey = 7" "digital_wellbeing sample_survey = 2"
    by (simp_all add: sample_survey_def)
  from encode_cognitive_input_record [OF v] obtain wi mc tr be co where
    codes: "Inr 3 = (Inr wi :: error + int)" "Inr 1 = (Inr mc :: error + int)"
      "Inr 0 = (Inr tr :: error + int)" "Inr 1 = (Inr be :: error + int)"
      "Inr 1 = (Inr co :: error + int)"
    and df: "encode_cognitive_input sample_survey =
         Inr \<lparr>columns =
                [''work_interfere'', ''mental_health_consequence'', ''treatment'',
                 ''benefits'', ''care_options'', ''daily_screen_time_min'', ''sleep_hours'',
                 ''focus_score'', ''mood_score'', ''anxiety_level'',
                 ''digital_wellbeing_score''],
              rows = [[wi, mc, tr, be, co, 480, 5, 3, 8, 7, 2]]\<rparr>"
    unfolding c n by blast
  from codes have "wi = 3" "mc = 1" "tr = 0" "be = 1" "co = 1"
    by simp_all
  with df v show ?thesis by simp
qed

section \<open>Properties of the decision vector\<close>

lemma build_decision_vector_pad:
  assumes "6 < n"
  shows "build_decision_vector inp n
     = Inr [decision_base inp @ replicate (nat (n - 6)) 0]"
  using assms
  by (simp add: build_decision_vector_def Let_def np_pad_def reshape_1_row_def
      decision_base_def)

lemma build_decision_vector_slice:
  assumes "n \<le> 6"
  shows "build_decision_vector inp n = Inr [slice_upto (decision_base inp) n]"
  using assms
  by (simp add: build_decision_vector_def Let_def reshape_1_row_def decision_base_def)

text \<open>
  Claim C5. For every \<^verbatim>\<open>decision_feature_count\<close> that is not negative the builder
  returns one row of exactly that many entries, made from daily_screen_time, sleep_hours,
  focus_score, mood_score, anxiety_level, digital_wellbeing in this order: followed by
  zeros when the count exceeds 6, cut to its first entries when the count is below 6. For
  the values 300, 7, 6, 6, 4, 6 a count of 4 gives 300, 7, 6, 6 and a count of 8 gives
  300, 7, 6, 6, 4, 6, 0, 0.
\<close>

theorem build_decision_vector_length:
  assumes "0 \<le> n"
  shows "(\<exists>row.
       build_decision_vector inp n = Inr [row]
       \<and> length row = nat n
       \<and> row =
           (let base = map real_of_int
                  [daily_screen_time inp, sleep_hours inp, focus_score inp, mood_score inp,
                   anxiety_level inp, digital_wellbeing inp]
            in if 6 < n then base @ replicate (nat (n - 6)) 0 else take (nat n) base))
    \<and> build_decision_vector default_survey 4 = Inr [[300, 7, 6, 6]]
    \<and> build_decision_vector default_survey 8 = Inr [[300, 7, 6, 6, 4, 6, 0, 0]]"
proof -
  have len: "length (decision_base inp) = 6"
    by (simp add: decision_base_def)
  have general: "\<exists>row.
       build_decision_vector inp n = Inr [row]
       \<and> length row = nat n
       \<and> row =
           (let base = map real_of_int
                  [daily_screen_time inp, sleep_hours inp, focus_score inp, mood_score inp,
                   anxiety_level inp, digital_wellbeing inp]
            in if 6 < n then base @ replicate (nat (n - 6)) 0 else take (nat n) base)"
  proof (cases "6 < n")
    case True
    then have "length (decision_base inp @ replicate (nat (n - 6)) 0) = nat n"
      by (simp add: len)
    with True build_decision_vector_pad [OF True, of inp] show ?thesis
      by (simp add: decision_base_def Let_def)
  next
    case False
    with assms have "slice_upto (decision_base inp) n = take (nat n) (decision_base inp)"
      by (simp add: slice_upto_def)
    moreover from False assms have "length (take (nat n) (decision_base inp)) = nat n"
      by (simp add: len)
    moreover from False have "build_decision_vector inp n
        = Inr [slice_upto (decision_base inp) n]"
      by (simp add: build_decision_vector_slice)
    ultimately show ?thesis
      using False by (simp add: decision_base_def Let_def)
  qed
  have base: "decision_base default_survey = [300, 7, 6, 6, 4, 6]"
    by (simp add: decision_base_def default_survey_def)
  have four: "build_decision_vector default_survey 4 = Inr [[300, 7, 6, 6]]"
    by (simp add: build_decision_vector_slice base slice_upto_def)
  have "replicate (nat (8 - 6)) (0::real) = [0, 0]"
    by (simp add: numeral_2_eq_2)
  then have eight: "build_decision_vector default_survey 8 = Inr [[300, 7, 6, 6, 4, 6, 0, 0]]"
    by (simp add: build_decision_vector_pad base)
  from general four eight show ?thesis by (intro conjI)
qed

theorem build_decision_vector_length_witness:
  "(0::int) \<le> 0
   \<and> build_decision_vector default_survey 0 = Inr [[]]
   \<and> (0::int) \<le> 6
   \<and> build_decision_vector default_survey 6 = Inr [[300, 7, 6, 6, 4, 6]]"
proof -
  have z: "(0::int) \<le> 0" and s: "(0::int) \<le> 6"
    by simp_all
  from build_decision_vector_length [OF z, of default_survey]
  have "build_decision_vector default_survey 0 = Inr [[]]"
    by auto
  moreover from build_decision_vector_length [OF s, of default_survey]
  have "build_decision_vector default_survey 6 = Inr [[300, 7, 6, 6, 4, 6]]"
    by (auto simp: default_survey_def)
  ultimately show ?thesis by simp
qed

text \<open>
  The bound on the count matters: a negative count takes the slicing branch, where it
  counts from the end, so the row is neither empty nor of the given length.
\<close>

lemma build_decision_vector_negative_count:
  "build_decision_vector default_survey (- 2) = Inr [[300, 7, 6, 6]]"
  by (simp add: build_decision_vector_slice slice_upto_def decision_base_def
      default_survey_def)

section \<open>Properties of the cluster label\<close>

lemma cluster_map_unknown:
  assumes "cid \<notin> {0, 1, 2}"
  shows "cluster_map cid = None"
  using assms by (simp add: cluster_map_def)

lemma dom_cluster_map: "dom cluster_map = {0, 1, 2}"
  by (auto simp: cluster_map_def split: if_splits)

text \<open>
  Claim C2, as amended. A cluster id outside the label table (for example 5) does not make
  the label step raise; the code defines no fallback label: the lookup gives no label, the
  display receives \<^verbatim>\<open>None\<close>, and the explanation text shows the word None.
\<close>

theorem unknown_cluster_no_label:
  assumes "cid \<notin> {0, 1, 2}"
  shows "show_cluster_profile cid = Inr (Success None)
     \<and> explained_cluster_label cid = Inr ''None''"
  using cluster_map_unknown [OF assms]
  by (simp add: show_cluster_profile_def explained_cluster_label_def dict_get_def
      format_label_def)

theorem unknown_cluster_no_label_witness:
  "(5::int) \<notin> {0, 1, 2}
   \<and> show_cluster_profile 5 = Inr (Success None)
   \<and> explained_cluster_label 5 = Inr ''None''"
proof -
  have u: "(5::int) \<notin> {0, 1, 2}" by simp
  from u unknown_cluster_no_label [OF u] show ?thesis by simp
qed

text \<open>
  Claim C2, as stated, fails at cluster id 5: neither the value given to the display nor
  the text of the explanation is the label Unrecognized Profile.
\<close>

theorem unknown_cluster_fallback_counterexample:
  "show_cluster_profile 5 \<noteq> Inr (Success (Some ''Unrecognized Profile''))
   \<and> explained_cluster_label 5 \<noteq> Inr ''Unrecognized Profile''"
  by (simp add: show_cluster_profile_def explained_cluster_label_def dict_get_def
      format_label_def cluster_map_def)

text \<open>
  Claim C9. The label lookup returns for every cluster id, in the table or not. For an id
  other than 0, 1, 2 it returns \<^verbatim>\<open>None\<close>, and that is the argument the result display
  is called with; for 0, 1, 2 the argument is the label of the table.
\<close>

theorem cluster_lookup_total:
  "(\<exists>v. dict_get cluster_map cid = Inr v)
   \<and> show_cluster_profile cid = Inr (Success (cluster_map cid))
   \<and> (cid \<notin> {0, 1, 2} \<longrightarrow>
        dict_get cluster_map cid = Inr None
        \<and> show_cluster_profile cid = Inr (Success None))
   \<and> show_cluster_profile 0 = Inr (Success (Some ''Balanced Cognitive State''))
   \<and> show_cluster_profile 1 = Inr (Success (Some ''High Cognitive Load & Anxiety''))
   \<and> show_cluster_profile 2 = Inr (Success (Some ''Low Focus & Digital Fatigue''))"
proof -
  have "show_cluster_profile cid = Inr (Success (cluster_map cid))"
    by (simp add: show_cluster_profile_def dict_get_def)
  moreover have "dict_get cluster_map cid = Inr None
      \<and> show_cluster_profile cid = Inr (Success None)" if "cid \<notin> {0, 1, 2}"
    using cluster_map_unknown [OF that]
    by (simp add: show_cluster_profile_def dict_get_def)
  moreover have "show_cluster_profile 0 = Inr (Success (Some ''Balanced Cognitive State''))"
    "show_cluster_profile 1 = Inr (Success (Some ''High Cognitive Load & Anxiety''))"
    "show_cluster_profile 2 = Inr (Success (Some ''Low Focus & Digital Fatigue''))"
    by (simp_all add: show_cluster_profile_def dict_get_def cluster_map_def)
  ultimately show ?thesis
    by (simp add: dict_get_def)
qed

theorem cluster_lookup_total_witness:
  "(-1::int) \<notin> {0, 1, 2}
   \<and> dict_get cluster_map (-1) = Inr None
   \<and> show_cluster_profile (-1) = Inr (Success None)"
proof -
  have u: "(-1::int) \<notin> {0, 1, 2}" by simp
  from u cluster_lookup_total [of "-1"] show ?thesis by blast
qed

end
